theory Spec2Isabelle
  imports Main "HOL-Library.Word"
begin

unbundle bit_operations_syntax

section \<open>Go values used by the service\<close>

text \<open>
  Go's \<open>int\<close> is 64 bits wide on the platforms the service is built for; a \<open>[]byte\<close> is a
  list of octets. A \<open>time.Time\<close> is read as a number of nanoseconds since the Unix epoch and
  a \<open>time.Duration\<close> as a number of nanoseconds. Every function of the source that reads the
  clock (\<open>time.Now()\<close>) takes the instant as an explicit argument \<open>now\<close>.
\<close>

type_synonym go_int = "64 word"
type_synonym byte = "8 word"
type_synonym bytes = "byte list"
type_synonym u32 = "32 word"
type_synonym go_time = int
type_synonym go_duration = int

definition bytes_of_string :: "string \<Rightarrow> bytes" where
  "bytes_of_string s = map (\<lambda>c. of_char c) s"

section \<open>strconv: decimal rendering and parsing\<close>

text \<open>
  \<open>strconv.FormatInt(i, 10)\<close> renders a signed integer in decimal, with a leading \<open>-\<close> for a
  negative one and no leading zeros. \<open>strconv.Atoi\<close> accepts an optional sign followed by at
  least one decimal digit and nothing else, and reports a range error when the value does
  not fit Go's \<open>int\<close>.
\<close>

datatype num_error = ErrSyntax | ErrRange

definition is_digit :: "char \<Rightarrow> bool" where
  "is_digit c = ((48::int) \<le> of_char c \<and> of_char c \<le> (57::int))"

definition digit_char :: "int \<Rightarrow> char" where
  "digit_char d = char_of (48 + d)"

definition digit_value :: "char \<Rightarrow> int" where
  "digit_value c = of_char c - 48"

function format_digits :: "int \<Rightarrow> string" where
  "format_digits n =
     (if n < 10 then [digit_char n] else format_digits (n div 10) @ [digit_char (n mod 10)])"
  by pat_completeness auto
termination
  by (relation "measure nat") auto

definition FormatInt :: "int \<Rightarrow> string" where
  "FormatInt i = (if i < 0 then CHR ''-'' # format_digits (- i) else format_digits i)"

definition Itoa :: "go_int \<Rightarrow> string" where
  "Itoa i = FormatInt (sint i)"

fun parse_digits :: "int \<Rightarrow> string \<Rightarrow> int option" where
  "parse_digits acc [] = Some acc"
| "parse_digits acc (c # cs) =
     (if is_digit c then parse_digits (acc * 10 + digit_value c) cs else None)"

definition ParseUint :: "string \<Rightarrow> num_error + int" where
  "ParseUint s =
     (if s = [] then Inl ErrSyntax
      else case parse_digits 0 s of None \<Rightarrow> Inl ErrSyntax | Some n \<Rightarrow> Inr n)"

definition Atoi :: "string \<Rightarrow> num_error + go_int" where
  "Atoi s =
     (case s of
        [] \<Rightarrow> Inl ErrSyntax
      | c # cs \<Rightarrow>
          if c = CHR ''-'' then
            (case ParseUint cs of
               Inl e \<Rightarrow> Inl e
             | Inr n \<Rightarrow> if n \<le> 9223372036854775808 then Inr (word_of_int (- n))
                      else Inl ErrRange)
          else
            (case ParseUint (if c = CHR ''+'' then cs else s) of
               Inl e \<Rightarrow> Inl e
             | Inr n \<Rightarrow> if n < 9223372036854775808 then Inr (word_of_int n)
                      else Inl ErrRange))"

section \<open>HMAC-SHA256, the one signing method the service accepts\<close>

text \<open>
  \<open>jwt.SigningMethodHS256\<close> computes the HMAC (RFC 2104) of the signing input with SHA-256
  (FIPS 180-4) under the secret. Both are written out, since which secrets verify which
  tokens is decided here: a key shorter than the 64-byte block is padded with zero bytes,
  a longer one is hashed first.
\<close>

definition K256 :: "u32 list" where
  \<comment> \<open>the round constants, eight to a row\<close>
  "K256 = concat
    [[0x428a2f98, 0x71374491, 0xb5c0fbcf, 0xe9b5dba5, 0x3956c25b, 0x59f111f1, 0x923f82a4, 0xab1c5ed5],
     [0xd807aa98, 0x12835b01, 0x243185be, 0x550c7dc3, 0x72be5d74, 0x80deb1fe, 0x9bdc06a7, 0xc19bf174],
     [0xe49b69c1, 0xefbe4786, 0x0fc19dc6, 0x240ca1cc, 0x2de92c6f, 0x4a7484aa, 0x5cb0a9dc, 0x76f988da],
     [0x983e5152, 0xa831c66d, 0xb00327c8, 0xbf597fc7, 0xc6e00bf3, 0xd5a79147, 0x06ca6351, 0x14292967],
     [0x27b70a85, 0x2e1b2138, 0x4d2c6dfc, 0x53380d13, 0x650a7354, 0x766a0abb, 0x81c2c92e, 0x92722c85],
     [0xa2bfe8a1, 0xa81a664b, 0xc24b8b70, 0xc76c51a3, 0xd192e819, 0xd6990624, 0xf40e3585, 0x106aa070],
     [0x19a4c116, 0x1e376c08, 0x2748774c, 0x34b0bcb5, 0x391c0cb3, 0x4ed8aa4a, 0x5b9cca4f, 0x682e6ff3],
     [0x748f82ee, 0x78a5636f, 0x84c87814, 0x8cc70208, 0x90befffa, 0xa4506ceb, 0xbef9a3f7, 0xc67178f2]]"

definition be32 :: "byte \<Rightarrow> byte \<Rightarrow> byte \<Rightarrow> byte \<Rightarrow> u32" where
  "be32 a b c d = push_bit 24 (ucast a) OR push_bit 16 (ucast b) OR push_bit 8 (ucast c) OR ucast d"

definition bytes_of_u32 :: "u32 \<Rightarrow> bytes" where
  "bytes_of_u32 w = [ucast (drop_bit 24 w), ucast (drop_bit 16 w), ucast (drop_bit 8 w), ucast w]"

fun words_of_bytes :: "bytes \<Rightarrow> u32 list" where
  "words_of_bytes (a # b # c # d # rest) = be32 a b c d # words_of_bytes rest"
| "words_of_bytes _ = []"

definition sha_pad :: "bytes \<Rightarrow> bytes" where
  "sha_pad m =
     (let l = length m;
          z = (119 - l mod 64) mod 64;
          bitlen = (word_of_nat (8 * l) :: 64 word)
      in m @ [0x80] @ replicate z 0 @
         map (\<lambda>i. ucast (drop_bit (8 * (7 - i)) bitlen)) [0..<8])"

fun blocks64 :: "nat \<Rightarrow> bytes \<Rightarrow> bytes list" where
  "blocks64 0 bs = []"
| "blocks64 (Suc n) bs = take 64 bs # blocks64 n (drop 64 bs)"

definition ssig0 :: "u32 \<Rightarrow> u32" where
  "ssig0 x = word_rotr 7 x XOR word_rotr 18 x XOR drop_bit 3 x"

definition ssig1 :: "u32 \<Rightarrow> u32" where
  "ssig1 x = word_rotr 17 x XOR word_rotr 19 x XOR drop_bit 10 x"

definition bsig0 :: "u32 \<Rightarrow> u32" where
  "bsig0 x = word_rotr 2 x XOR word_rotr 13 x XOR word_rotr 22 x"

definition bsig1 :: "u32 \<Rightarrow> u32" where
  "bsig1 x = word_rotr 6 x XOR word_rotr 11 x XOR word_rotr 25 x"

definition ch :: "u32 \<Rightarrow> u32 \<Rightarrow> u32 \<Rightarrow> u32" where
  "ch x y z = (x AND y) XOR (NOT x AND z)"

definition maj :: "u32 \<Rightarrow> u32 \<Rightarrow> u32 \<Rightarrow> u32" where
  "maj x y z = (x AND y) XOR (x AND z) XOR (y AND z)"

fun schedule :: "nat \<Rightarrow> u32 list \<Rightarrow> u32 list" where
  "schedule 0 w = w"
| "schedule (Suc n) w =
     (let t = length w
      in schedule n (w @ [ssig1 (w ! (t - 2)) + w ! (t - 7) + ssig0 (w ! (t - 15)) + w ! (t - 16)]))"

record sha_state =
  h0 :: u32
  h1 :: u32
  h2 :: u32
  h3 :: u32
  h4 :: u32
  h5 :: u32
  h6 :: u32
  h7 :: u32

definition sha_round :: "sha_state \<Rightarrow> u32 \<times> u32 \<Rightarrow> sha_state" where
  "sha_round s kw =
     (let t1 = h7 s + bsig1 (h4 s) + ch (h4 s) (h5 s) (h6 s) + fst kw + snd kw;
          t2 = bsig0 (h0 s) + maj (h0 s) (h1 s) (h2 s)
      in \<lparr>h0 = t1 + t2, h1 = h0 s, h2 = h1 s, h3 = h2 s,
          h4 = h3 s + t1, h5 = h4 s, h6 = h5 s, h7 = h6 s\<rparr>)"

definition sha_compress :: "sha_state \<Rightarrow> bytes \<Rightarrow> sha_state" where
  "sha_compress s blk =
     (let w = schedule 48 (words_of_bytes blk);
          r = foldl sha_round s (zip K256 w)
      in \<lparr>h0 = h0 s + h0 r, h1 = h1 s + h1 r, h2 = h2 s + h2 r, h3 = h3 s + h3 r,
          h4 = h4 s + h4 r, h5 = h5 s + h5 r, h6 = h6 s + h6 r, h7 = h7 s + h7 r\<rparr>)"

definition sha_init :: sha_state where
  "sha_init = \<lparr>h0 = 0x6a09e667, h1 = 0xbb67ae85, h2 = 0x3c6ef372, h3 = 0xa54ff53a,
               h4 = 0x510e527f, h5 = 0x9b05688c, h6 = 0x1f83d9ab, h7 = 0x5be0cd19\<rparr>"

definition sha256 :: "bytes \<Rightarrow> bytes" where
  "sha256 m =
     (let p = sha_pad m;
          s = foldl sha_compress sha_init (blocks64 (length p div 64) p)
      in concat (map bytes_of_u32 [h0 s, h1 s, h2 s, h3 s, h4 s, h5 s, h6 s, h7 s]))"

definition hmac_sha256 :: "bytes \<Rightarrow> bytes \<Rightarrow> bytes" where
  "hmac_sha256 key msg =
     (let k0 = (if 64 < length key then sha256 key else key);
          kp = k0 @ replicate (64 - length k0) 0
      in sha256 (map (\<lambda>b. b XOR 0x5c) kp @ sha256 (map (\<lambda>b. b XOR 0x36) kp @ msg)))"

section \<open>Tokens: github.com/golang-jwt/jwt/v5 as the service uses it\<close>

text \<open>
  The service builds tokens with \<open>jwt.NewWithClaims(jwt.SigningMethodHS256, ...)\<close> and
  \<open>SignedString\<close>, and reads them with \<open>jwt.Parse(..., jwt.WithValidMethods([HS256]))\<close>. The
  library is not part of the repository; it is modelled by the order of checks it documents,
  which is the order the specification gives for \<open>verify\<close>: split and decode the three
  segments, look the algorithm up, check it against the valid methods, check the signature
  under the key the key function returns, then validate the claims against the clock.

  A string on the wire is kept by what the parser makes of it: \<open>Compact alg claims sig\<close> is a
  string of three base64url segments that decode to a JSON header naming \<open>alg\<close>, a JSON claims
  object and a signature; \<open>Plain s\<close> is any other string \<open>s\<close>. The claims are kept as the
  getters of \<open>jwt.MapClaims\<close> read them: \<open>sub\<close> is absent, a string, or a value of another
  JSON type; \<open>exp\<close> is absent, an instant, or a value that is not a number (the number 0,
  which no token issued after 1970 carries, is read by the library as an absent \<open>exp\<close>).
\<close>

datatype jwt_error =
    ErrTokenMalformed
  | ErrTokenUnverifiable
  | ErrTokenSignatureInvalid
  | ErrTokenExpired
  | ErrInvalidType

datatype sub_claim = SubAbsent | SubString string | SubNotString

datatype exp_claim = ExpAbsent | ExpAt go_time | ExpNotNumber

record MapClaims =
  claimSub :: sub_claim
  claimExp :: exp_claim

datatype wire_string = Plain string | Compact string MapClaims bytes

record Token =
  Method :: string
  Claims :: MapClaims
  Signature :: bytes
  Valid :: bool

definition SigningMethodHS256_Name :: string where
  "SigningMethodHS256_Name = ''HS256''"

definition registered_methods :: "string list" where
  "registered_methods =
     [''HS256'', ''HS384'', ''HS512'', ''RS256'', ''RS384'', ''RS512'', ''ES256'', ''ES384'',
      ''ES512'', ''PS256'', ''PS384'', ''PS512'', ''EdDSA'', ''none'']"

definition NewNumericDate :: "go_time \<Rightarrow> go_time" where
  \<comment> \<open>\<open>t.Truncate(jwt.TimePrecision)\<close>, the precision being one second\<close>
  "NewNumericDate t = t - t mod 1000000000"

definition render_sub :: "sub_claim \<Rightarrow> string" where
  "render_sub s = (case s of SubAbsent \<Rightarrow> [] | SubString x \<Rightarrow> CHR ''s'' # x | SubNotString \<Rightarrow> ''?'')"

definition render_exp :: "exp_claim \<Rightarrow> string" where
  "render_exp e = (case e of ExpAbsent \<Rightarrow> [] | ExpAt t \<Rightarrow> CHR ''t'' # FormatInt t | ExpNotNumber \<Rightarrow> ''?'')"

definition SigningString :: "string \<Rightarrow> MapClaims \<Rightarrow> bytes" where
  \<comment> \<open>the first two segments joined by a dot: the bytes the signature covers. The base64url
      JSON text is replaced by a plain rendering of the header and the claims.\<close>
  "SigningString alg c =
     bytes_of_string (alg @ ''.'' @ render_sub (claimSub c) @ ''.'' @ render_exp (claimExp c))"

definition SigningMethodHS256_Sign :: "bytes \<Rightarrow> bytes \<Rightarrow> bytes" where
  "SigningMethodHS256_Sign signingString key = hmac_sha256 key signingString"

definition SigningMethodHS256_Verify :: "bytes \<Rightarrow> bytes \<Rightarrow> bytes \<Rightarrow> bool" where
  \<comment> \<open>\<open>hmac.Equal(sig, hasher.Sum(nil))\<close>\<close>
  "SigningMethodHS256_Verify signingString sig key = (sig = hmac_sha256 key signingString)"

definition SignedString :: "string \<Rightarrow> MapClaims \<Rightarrow> bytes \<Rightarrow> wire_string" where
  "SignedString alg c key = Compact alg c (SigningMethodHS256_Sign (SigningString alg c) key)"

definition GetSubject :: "MapClaims \<Rightarrow> jwt_error + string" where
  "GetSubject c =
     (case claimSub c of SubAbsent \<Rightarrow> Inr [] | SubString s \<Rightarrow> Inr s | SubNotString \<Rightarrow> Inl ErrInvalidType)"

definition validate_claims :: "go_time \<Rightarrow> MapClaims \<Rightarrow> jwt_error option" where
  \<comment> \<open>the validator with no option set: only an \<open>exp\<close> that is present is checked, by
      \<open>now.Before(exp)\<close>\<close>
  "validate_claims now c =
     (case claimExp c of
        ExpAbsent \<Rightarrow> None
      | ExpNotNumber \<Rightarrow> Some ErrInvalidType
      | ExpAt t \<Rightarrow> if now < t then None else Some ErrTokenExpired)"

definition jwt_Parse :: "go_time \<Rightarrow> wire_string \<Rightarrow> (Token \<Rightarrow> bytes) \<Rightarrow> string list \<Rightarrow> jwt_error + Token" where
  \<comment> \<open>of the signing methods only HS256 is written out; the branch for another method
      that is both registered and listed as valid is not reached from \<open>VerifyJWT\<close>, which
      lists HS256 alone\<close>
  "jwt_Parse now tokenString keyFunc validMethods =
     (case tokenString of
        Plain s \<Rightarrow> Inl ErrTokenMalformed
      | Compact alg c sig \<Rightarrow>
          (let token = \<lparr>Method = alg, Claims = c, Signature = sig, Valid = False\<rparr> in
           if \<not> List.member registered_methods alg then Inl ErrTokenUnverifiable
           else if \<not> List.member validMethods alg then Inl ErrTokenSignatureInvalid
           else if alg \<noteq> SigningMethodHS256_Name then Inl ErrTokenUnverifiable
           else if \<not> SigningMethodHS256_Verify (SigningString alg c) sig (keyFunc token)
             then Inl ErrTokenSignatureInvalid
           else case validate_claims now c of
                  Some e \<Rightarrow> Inl e
                | None \<Rightarrow> Inr (token\<lparr>Valid := True\<rparr>)))"

section \<open>handlers/auth/auth.go\<close>

text \<open>
  \<open>GenerateJWT\<close> takes the lifetime as a duration; \<open>generateJWT\<close> (the earlier variant kept in
  the repository, which \<open>customer_server.go\<close> is written against) takes the instant of expiry.
  \<open>SignedString\<close> cannot fail for HS256 with a \<open>[]byte\<close> key, so both return a token.
\<close>

definition GenerateJWT :: "bytes \<Rightarrow> go_duration \<Rightarrow> go_int \<Rightarrow> go_time \<Rightarrow> jwt_error + wire_string" where
  "GenerateJWT secretKey expiresAt subject now =
     Inr (SignedString SigningMethodHS256_Name
            \<lparr>claimSub = SubString (FormatInt (sint subject)),
             claimExp = ExpAt (NewNumericDate (now + expiresAt))\<rparr> secretKey)"

definition GenerateJWTWithStringSubject :: "bytes \<Rightarrow> go_duration \<Rightarrow> string \<Rightarrow> go_time \<Rightarrow> jwt_error + wire_string" where
  "GenerateJWTWithStringSubject secretKey expiresAt subject now =
     Inr (SignedString SigningMethodHS256_Name
            \<lparr>claimSub = SubString subject,
             claimExp = ExpAt (NewNumericDate (now + expiresAt))\<rparr> secretKey)"

definition GenerateJWTWithoutSubject :: "bytes \<Rightarrow> go_duration \<Rightarrow> go_time \<Rightarrow> jwt_error + wire_string" where
  "GenerateJWTWithoutSubject secretKey expiresAt now =
     Inr (SignedString SigningMethodHS256_Name
            \<lparr>claimSub = SubAbsent,
             claimExp = ExpAt (NewNumericDate (now + expiresAt))\<rparr> secretKey)"

definition generateJWT :: "bytes \<Rightarrow> go_time \<Rightarrow> go_int \<Rightarrow> jwt_error + wire_string" where
  "generateJWT secretKey expiresAt subject =
     Inr (SignedString SigningMethodHS256_Name
            \<lparr>claimSub = SubString (FormatInt (sint subject)),
             claimExp = ExpAt (NewNumericDate expiresAt)\<rparr> secretKey)"

definition VerifyJWT :: "go_time \<Rightarrow> wire_string \<Rightarrow> bytes \<Rightarrow> jwt_error + Token" where
  "VerifyJWT now jwtString secretKey =
     (case jwt_Parse now jwtString (\<lambda>token. secretKey) [SigningMethodHS256_Name] of
        Inl err \<Rightarrow> Inl err
      | Inr token \<Rightarrow> Inr token)"

section \<open>Records and error values of the service\<close>

text \<open>
  \<open>Customer\<close> and the request and response records are those of \<open>customer_server.go\<close>; the
  fields of the request and response records carry a prefix, since they repeat the names of
  \<open>Customer\<close>'s. \<open>HGetCustomerResponse\<close> is the \<open>GetCustomerResponse\<close> of
  \<open>handlers/customer/customer_types.go\<close>, which declares an \<open>Id\<close> field in addition. The error
  values (\<open>handlers.ErrMissingToken\<close> and the others) are declared outside the files at hand:
  each is kept as a constructor, so that two of them are told apart by name and by nothing
  else.
\<close>

record Customer =
  ID :: go_int
  FirstName :: string
  LastName :: string
  PhoneNumber :: string
  Email :: string
  Password :: string

record GetCustomerResponse =
  respFirstName :: string
  respLastName :: string
  respPhoneNumber :: string
  respEmail :: string

record HGetCustomerResponse =
  hrespId :: go_int
  hrespFirstName :: string
  hrespLastName :: string
  hrespPhoneNumber :: string
  hrespEmail :: string

record CreateCustomerRequest =
  createFirstName :: string
  createLastName :: string
  createPhoneNumber :: string
  createEmail :: string
  createPassword :: string

record LoginCustomerRequest =
  loginEmail :: string
  loginPassword :: string

record UpdateCustomerRequest =
  updateFirstName :: string
  updateLastName :: string
  updatePhoneNumber :: string
  updateEmail :: string
  updatePassword :: string

datatype error_message =
    ErrMissingToken
  | ErrMissingSubject
  | ErrNonIntegerSubject
  | ErrMissingCustomer
  | ErrMissingAddress
  | ErrExistingUser
  | ErrInvalidCredentials
  | ErrUnathorizedAction
  | ErrInvalidRequestField
  | JWTError jwt_error
  | ValidationError string

datatype body_value =
    ErrorResponse error_message
  | GetCustomerResponseJSON GetCustomerResponse

section \<open>net/http: headers, requests and the response writer\<close>

text \<open>
  A header maps a key to the list of its values; a key that was never set reads as \<open>nil\<close>
  (\<open>None\<close>). The response writer keeps the header map the handler edits (\<open>handlerHeader\<close>)
  apart from the header that goes out with the status line (\<open>sentHeader\<close>): \<open>WriteHeader\<close>
  sends the status and the header map as it stands, and, in the words of \<open>net/http\<close>,
  changing the header map after a call to \<open>WriteHeader\<close> (or \<open>Write\<close>) has no effect unless the
  status code was of the 1xx class or the modified headers are trailers. The first \<open>Write\<close>
  without a status sends 200, and so does the server when the handler returns without having
  written anything. A handler may panic; the panic is a value of the result.
\<close>

type_synonym Header = "string \<Rightarrow> wire_string list option"

definition Header_Add :: "Header \<Rightarrow> string \<Rightarrow> wire_string \<Rightarrow> Header" where
  "Header_Add h key v = h(key \<mapsto> (case h key of None \<Rightarrow> [] | Some vs \<Rightarrow> vs) @ [v])"

record 'b Request =
  reqMethod :: string
  reqHeader :: Header
  reqBody :: 'b

record ResponseWriter =
  handlerHeader :: Header
  wroteHeader :: bool
  status :: nat
  sentHeader :: Header
  body :: "body_value list"

record Response =
  StatusCode :: nat
  ResponseHeader :: Header
  ResponseBody :: "body_value list"

datatype panic = IndexOutOfRange | NilPointerDereference

type_synonym ('b, 's) HandlerFunc = "ResponseWriter \<Rightarrow> 'b Request \<Rightarrow> 's \<Rightarrow> panic + ResponseWriter \<times> 's"

abbreviation StatusOK :: nat where "StatusOK \<equiv> 200"
abbreviation StatusAccepted :: nat where "StatusAccepted \<equiv> 202"
abbreviation StatusBadRequest :: nat where "StatusBadRequest \<equiv> 400"
abbreviation StatusUnauthorized :: nat where "StatusUnauthorized \<equiv> 401"
abbreviation StatusNotFound :: nat where "StatusNotFound \<equiv> 404"

definition NewResponseWriter :: ResponseWriter where
  "NewResponseWriter =
     \<lparr>handlerHeader = Map.empty, wroteHeader = False, status = StatusOK,
      sentHeader = Map.empty, body = []\<rparr>"

definition WriteHeader :: "nat \<Rightarrow> ResponseWriter \<Rightarrow> ResponseWriter" where
  "WriteHeader code w =
     (if wroteHeader w then w
      else w\<lparr>wroteHeader := True, status := code, sentHeader := handlerHeader w\<rparr>)"

definition Encode :: "body_value \<Rightarrow> ResponseWriter \<Rightarrow> ResponseWriter" where
  \<comment> \<open>\<open>json.NewEncoder(w).Encode(v)\<close>: one \<open>Write\<close> of the encoded value\<close>
  "Encode v w = (let w' = WriteHeader StatusOK w in w'\<lparr>body := body w' @ [v]\<rparr>)"

definition w_Header_Add :: "string \<Rightarrow> wire_string \<Rightarrow> ResponseWriter \<Rightarrow> ResponseWriter" where
  \<comment> \<open>\<open>w.Header().Add(key, v)\<close>\<close>
  "w_Header_Add key v w = w\<lparr>handlerHeader := Header_Add (handlerHeader w) key v\<rparr>"

definition Result :: "ResponseWriter \<Rightarrow> Response" where
  \<comment> \<open>what the client receives once the handler has returned\<close>
  "Result w =
     (let w' = WriteHeader StatusOK w
      in \<lparr>StatusCode = status w', ResponseHeader = sentHeader w', ResponseBody = body w'\<rparr>)"

definition wire_Atoi :: "wire_string \<Rightarrow> num_error + go_int" where
  \<comment> \<open>\<open>strconv.Atoi\<close> of a header value; a compact token has dots and letters\<close>
  "wire_Atoi v = (case v of Plain s \<Rightarrow> Atoi s | Compact alg c sig \<Rightarrow> Inl ErrSyntax)"

section \<open>handlers/auth/auth.go: the authentication middleware\<close>

definition getIDFromToken :: "Token \<Rightarrow> error_message + go_int" where
  "getIDFromToken token =
     (case GetSubject (Claims token) of
        Inl err \<Rightarrow> Inl ErrMissingSubject
      | Inr subject \<Rightarrow>
          if subject = [] then Inl ErrMissingSubject
          else case Atoi subject of
                 Inl err \<Rightarrow> Inl ErrNonIntegerSubject
               | Inr id' \<Rightarrow> Inr id')"

definition AuthenticationMiddleware ::
    "('b, 's) HandlerFunc \<Rightarrow> bytes \<Rightarrow> go_time \<Rightarrow> ('b, 's) HandlerFunc" where
  "AuthenticationMiddleware endpointHandler secretKey now w r st =
     (case reqHeader r ''Token'' of
        None \<Rightarrow>
          Inr (Encode (ErrorResponse ErrMissingToken) (WriteHeader StatusUnauthorized w), st)
      | Some [] \<Rightarrow> Inl IndexOutOfRange
      | Some (t # ts) \<Rightarrow>
          (case VerifyJWT now t secretKey of
             Inl err \<Rightarrow>
               Inr (Encode (ErrorResponse (JWTError err)) (WriteHeader StatusUnauthorized w), st)
           | Inr token \<Rightarrow>
               (case getIDFromToken token of
                  Inl err \<Rightarrow>
                    Inr (Encode (ErrorResponse err) (WriteHeader StatusUnauthorized w), st)
                | Inr id' \<Rightarrow>
                    endpointHandler w
                      (r\<lparr>reqHeader := Header_Add (reqHeader r) ''Subject'' (Plain (Itoa id'))\<rparr>) st)))"

section \<open>customer_server.go: the store interface and the server\<close>

text \<open>
  \<open>CustomerStore\<close> is an interface: the handlers are written against any implementation,
  given here as a record of its five methods over a store state \<open>'s\<close>. A lookup returns a
  pointer and an error; an implementation returns either a customer and no error or the
  nil pointer and an error, which is the sum \<open>store_error + Customer\<close>. Every call a handler
  makes on the store is logged in \<open>storeCalls\<close>, in order, so that the accesses of one request
  can be counted.

  \<open>ValidateRequest(r.Body, &request)\<close> is defined outside the files at hand. It decodes the
  body into the request record it is given and validates it; the handlers take it as the
  record \<open>V\<close> of its three instances.
\<close>

datatype store_error = StoreError

record 's CustomerStore =
  GetCustomerById :: "'s \<Rightarrow> go_int \<Rightarrow> store_error + Customer"
  GetCustomerByEmail :: "'s \<Rightarrow> string \<Rightarrow> store_error + Customer"
  StoreCustomer :: "'s \<Rightarrow> Customer \<Rightarrow> go_int \<times> 's"
  DeleteCustomer :: "'s \<Rightarrow> go_int \<Rightarrow> store_error option \<times> 's"
  UpdateCustomer :: "'s \<Rightarrow> Customer \<Rightarrow> store_error option \<times> 's"

datatype store_call =
    CallGetCustomerById go_int
  | CallGetCustomerByEmail string
  | CallStoreCustomer Customer
  | CallDeleteCustomer go_int
  | CallUpdateCustomer Customer

record 's World =
  storeState :: 's
  storeCalls :: "store_call list"

record 'b ValidateRequest =
  intoLogin :: "'b \<Rightarrow> error_message + LoginCustomerRequest"
  intoCreate :: "'b \<Rightarrow> error_message + CreateCustomerRequest"
  intoUpdate :: "'b \<Rightarrow> error_message + UpdateCustomerRequest"

record 's CustomerServer =
  secretKey :: bytes
  expiresAt :: go_time
  store :: "'s CustomerStore"

definition call_GetCustomerById ::
    "'s CustomerStore \<Rightarrow> 's World \<Rightarrow> go_int \<Rightarrow> (store_error + Customer) \<times> 's World" where
  "call_GetCustomerById ops wd i =
     (GetCustomerById ops (storeState wd) i,
      wd\<lparr>storeCalls := storeCalls wd @ [CallGetCustomerById i]\<rparr>)"

definition call_GetCustomerByEmail ::
    "'s CustomerStore \<Rightarrow> 's World \<Rightarrow> string \<Rightarrow> (store_error + Customer) \<times> 's World" where
  "call_GetCustomerByEmail ops wd email =
     (GetCustomerByEmail ops (storeState wd) email,
      wd\<lparr>storeCalls := storeCalls wd @ [CallGetCustomerByEmail email]\<rparr>)"

definition call_StoreCustomer ::
    "'s CustomerStore \<Rightarrow> 's World \<Rightarrow> Customer \<Rightarrow> go_int \<times> 's World" where
  "call_StoreCustomer ops wd customer =
     (case StoreCustomer ops (storeState wd) customer of
        (i, st) \<Rightarrow> (i, \<lparr>storeState = st, storeCalls = storeCalls wd @ [CallStoreCustomer customer]\<rparr>))"

definition call_DeleteCustomer ::
    "'s CustomerStore \<Rightarrow> 's World \<Rightarrow> go_int \<Rightarrow> store_error option \<times> 's World" where
  "call_DeleteCustomer ops wd i =
     (case DeleteCustomer ops (storeState wd) i of
        (err, st) \<Rightarrow> (err, \<lparr>storeState = st, storeCalls = storeCalls wd @ [CallDeleteCustomer i]\<rparr>))"

definition call_UpdateCustomer ::
    "'s CustomerStore \<Rightarrow> 's World \<Rightarrow> Customer \<Rightarrow> store_error option \<times> 's World" where
  "call_UpdateCustomer ops wd customer =
     (case UpdateCustomer ops (storeState wd) customer of
        (err, st) \<Rightarrow> (err, \<lparr>storeState = st, storeCalls = storeCalls wd @ [CallUpdateCustomer customer]\<rparr>))"

definition phonenumber :: "string \<Rightarrow> bool" where
  \<comment> \<open>the validator registered by \<open>NewCustomerServer\<close>: \<open>regexp.Match(`^\+[\d ]+$`, str)\<close>\<close>
  "phonenumber str =
     (case str of
        [] \<Rightarrow> False
      | c # cs \<Rightarrow> c = CHR ''+'' \<and> cs \<noteq> [] \<and> list_all (\<lambda>x. is_digit x \<or> x = CHR '' '') cs)"

definition token_of :: "jwt_error + wire_string \<Rightarrow> wire_string" where
  \<comment> \<open>\<open>tokenString, _ := GenerateJWT(...)\<close>: the empty string comes with an error\<close>
  "token_of res = (case res of Inl err \<Rightarrow> Plain [] | Inr tokenString \<Rightarrow> tokenString)"

definition subject_of :: "'b Request \<Rightarrow> panic + go_int" where
  \<comment> \<open>\<open>id, _ := strconv.Atoi(r.Header["Subject"][0])\<close>: indexing a missing header panics,
      a value that does not parse leaves \<open>id\<close> at 0\<close>
  "subject_of r =
     (case reqHeader r ''Subject'' of
        None \<Rightarrow> Inl IndexOutOfRange
      | Some [] \<Rightarrow> Inl IndexOutOfRange
      | Some (v # vs) \<Rightarrow> (case wire_Atoi v of Inl err \<Rightarrow> Inr 0 | Inr i \<Rightarrow> Inr i))"

definition getCustomerFromCreateCustomerRequest :: "CreateCustomerRequest \<Rightarrow> Customer" where
  "getCustomerFromCreateCustomerRequest createCustomerRequest =
     \<lparr>ID = 0,
      FirstName = createFirstName createCustomerRequest,
      LastName = createLastName createCustomerRequest,
      PhoneNumber = createPhoneNumber createCustomerRequest,
      Email = createEmail createCustomerRequest,
      Password = createPassword createCustomerRequest\<rparr>"

definition newGetCustomerResponse :: "Customer \<Rightarrow> GetCustomerResponse" where
  "newGetCustomerResponse customer =
     \<lparr>respFirstName = FirstName customer,
      respLastName = LastName customer,
      respPhoneNumber = PhoneNumber customer,
      respEmail = Email customer\<rparr>"

definition LoginHandler ::
    "'s CustomerServer \<Rightarrow> 'b ValidateRequest \<Rightarrow> ('b, 's World) HandlerFunc" where
  "LoginHandler c V w r wd =
     (case intoLogin V (reqBody r) of
        Inl err \<Rightarrow> Inr (Encode (ErrorResponse err) (WriteHeader StatusBadRequest w), wd)
      | Inr loginCustomerRequest \<Rightarrow>
          (case call_GetCustomerByEmail (store c) wd (loginEmail loginCustomerRequest) of
             (Inl err, wd1) \<Rightarrow>
               Inr (Encode (ErrorResponse ErrMissingCustomer) (WriteHeader StatusUnauthorized w), wd1)
           | (Inr customer, wd1) \<Rightarrow>
               if Password customer \<noteq> loginPassword loginCustomerRequest then
                 Inr (Encode (ErrorResponse ErrInvalidCredentials)
                        (WriteHeader StatusUnauthorized w), wd1)
               else
                 (let loginJWT = token_of (generateJWT (secretKey c) (expiresAt c) (ID customer))
                  in Inr (w_Header_Add ''Token'' loginJWT (WriteHeader StatusAccepted w), wd1))))"

definition updateCustomer ::
    "'s CustomerServer \<Rightarrow> 'b ValidateRequest \<Rightarrow> ('b, 's World) HandlerFunc" where
  "updateCustomer c V w r wd =
     (case subject_of r of
        Inl p \<Rightarrow> Inl p
      | Inr i \<Rightarrow>
          (case call_GetCustomerById (store c) wd i of
             (found, wd1) \<Rightarrow>
               (case intoUpdate V (reqBody r) of
                  Inl err \<Rightarrow>
                    Inr (Encode (ErrorResponse err) (WriteHeader StatusBadRequest w), wd1)
                | Inr updateCustomerRequest \<Rightarrow>
                    (case found of
                       Inl err \<Rightarrow> Inl NilPointerDereference
                     | Inr customer \<Rightarrow>
                         (let customer' = customer
                                \<lparr>FirstName := updateFirstName updateCustomerRequest,
                                 LastName := updateLastName updateCustomerRequest,
                                 Email := updateEmail updateCustomerRequest,
                                 PhoneNumber := updatePhoneNumber updateCustomerRequest,
                                 Password := updatePassword updateCustomerRequest\<rparr>
                          in Inr (w, snd (call_UpdateCustomer (store c) wd1 customer')))))))"

definition deleteCustomer :: "'s CustomerServer \<Rightarrow> ('b, 's World) HandlerFunc" where
  "deleteCustomer c w r wd =
     (case subject_of r of
        Inl p \<Rightarrow> Inl p
      | Inr i \<Rightarrow>
          (case call_DeleteCustomer (store c) wd i of
             (Some err, wd1) \<Rightarrow>
               Inr (Encode (ErrorResponse ErrMissingCustomer) (WriteHeader StatusNotFound w), wd1)
           | (None, wd1) \<Rightarrow> Inr (w, wd1)))"

definition storeCustomer ::
    "'s CustomerServer \<Rightarrow> 'b ValidateRequest \<Rightarrow> ('b, 's World) HandlerFunc" where
  "storeCustomer c V w r wd =
     (case intoCreate V (reqBody r) of
        Inl err \<Rightarrow> Inr (Encode (ErrorResponse err) (WriteHeader StatusBadRequest w), wd)
      | Inr createCustomerRequest \<Rightarrow>
          (case call_GetCustomerByEmail (store c) wd (createEmail createCustomerRequest) of
             (Inr existing, wd1) \<Rightarrow>
               Inr (Encode (ErrorResponse ErrExistingUser) (WriteHeader StatusBadRequest w), wd1)
           | (Inl err, wd1) \<Rightarrow>
               (case call_StoreCustomer (store c) wd1
                       (getCustomerFromCreateCustomerRequest createCustomerRequest) of
                  (customerId, wd2) \<Rightarrow>
                    (let customerJWT = token_of (generateJWT (secretKey c) (expiresAt c) customerId)
                     in Inr (w_Header_Add ''Token'' customerJWT (WriteHeader StatusAccepted w), wd2)))))"

definition getCustomer :: "'s CustomerServer \<Rightarrow> ('b, 's World) HandlerFunc" where
  "getCustomer c w r wd =
     (case subject_of r of
        Inl p \<Rightarrow> Inl p
      | Inr i \<Rightarrow>
          (case call_GetCustomerById (store c) wd i of
             (Inl err, wd1) \<Rightarrow>
               Inr (Encode (ErrorResponse ErrMissingCustomer) (WriteHeader StatusNotFound w), wd1)
           | (Inr customer, wd1) \<Rightarrow>
               Inr (Encode (GetCustomerResponseJSON (newGetCustomerResponse customer)) w, wd1)))"

definition CustomerHandler ::
    "'s CustomerServer \<Rightarrow> 'b ValidateRequest \<Rightarrow> go_time \<Rightarrow> ('b, 's World) HandlerFunc" where
  "CustomerHandler c V now w r wd =
     (if reqMethod r = ''POST'' then storeCustomer c V w r wd
      else if reqMethod r = ''GET'' then
        AuthenticationMiddleware (getCustomer c) (secretKey c) now w r wd
      else if reqMethod r = ''DELETE'' then
        AuthenticationMiddleware (deleteCustomer c) (secretKey c) now w r wd
      else if reqMethod r = ''PUT'' then
        AuthenticationMiddleware (updateCustomer c V) (secretKey c) now w r wd
      else Inr (w, wd))"

section \<open>handlers/customer/customer_types.go\<close>

definition CustomerToGetCustomerResponse :: "Customer \<Rightarrow> HGetCustomerResponse" where
  \<comment> \<open>the composite literal names four of the five fields; \<open>Id\<close> keeps Go's zero value\<close>
  "CustomerToGetCustomerResponse customer =
     \<lparr>hrespId = 0,
      hrespFirstName = FirstName customer,
      hrespLastName = LastName customer,
      hrespPhoneNumber = PhoneNumber customer,
      hrespEmail = Email customer\<rparr>"

section \<open>A store and a validator to run the handlers on\<close>

text \<open>
  Modelled from the spec: the storage backend, which the repository reaches only through
  the \<open>CustomerStore\<close> interface. The specification treats it as an opaque key/value-by-id
  store with CRUD methods that reports a missing record; \<open>MemStore\<close> is the plainest such
  store, a list of customers, and serves as the concrete store of the examples.
\<close>

definition mem_GetCustomerById :: "Customer list \<Rightarrow> go_int \<Rightarrow> store_error + Customer" where
  "mem_GetCustomerById cs i =
     (case find (\<lambda>c. ID c = i) cs of None \<Rightarrow> Inl StoreError | Some c \<Rightarrow> Inr c)"

definition mem_GetCustomerByEmail :: "Customer list \<Rightarrow> string \<Rightarrow> store_error + Customer" where
  "mem_GetCustomerByEmail cs email =
     (case find (\<lambda>c. Email c = email) cs of None \<Rightarrow> Inl StoreError | Some c \<Rightarrow> Inr c)"

definition mem_StoreCustomer :: "Customer list \<Rightarrow> Customer \<Rightarrow> go_int \<times> Customer list" where
  "mem_StoreCustomer cs customer =
     (let i = word_of_nat (Suc (length cs)) in (i, cs @ [customer\<lparr>ID := i\<rparr>]))"

definition mem_DeleteCustomer :: "Customer list \<Rightarrow> go_int \<Rightarrow> store_error option \<times> Customer list" where
  "mem_DeleteCustomer cs i =
     (case find (\<lambda>c. ID c = i) cs of
        None \<Rightarrow> (Some StoreError, cs)
      | Some c \<Rightarrow> (None, filter (\<lambda>c. ID c \<noteq> i) cs))"

definition mem_UpdateCustomer :: "Customer list \<Rightarrow> Customer \<Rightarrow> store_error option \<times> Customer list" where
  "mem_UpdateCustomer cs customer =
     (case find (\<lambda>c. ID c = ID customer) cs of
        None \<Rightarrow> (Some StoreError, cs)
      | Some c \<Rightarrow> (None, map (\<lambda>c. if ID c = ID customer then customer else c) cs))"

definition MemStore :: "Customer list CustomerStore" where
  "MemStore =
     \<lparr>GetCustomerById = mem_GetCustomerById,
      GetCustomerByEmail = mem_GetCustomerByEmail,
      StoreCustomer = mem_StoreCustomer,
      DeleteCustomer = mem_DeleteCustomer,
      UpdateCustomer = mem_UpdateCustomer\<rparr>"

text \<open>
  Modelled from the spec: \<open>ValidateRequest\<close>, the Request Validator. It checks a decoded
  payload against the rules on the fields of the request records of \<open>customer_server.go\<close>
  (\<open>required\<close>, \<open>stringlength(min|max)\<close>, \<open>phonenumber\<close>, \<open>email\<close>) and reports the first field
  that breaks one. A body is kept as the payload it decodes to. The \<open>email\<close> matcher belongs
  to the validation library and is a parameter.
\<close>

datatype json_body =
    NoBody
  | LoginBody LoginCustomerRequest
  | CreateBody CreateCustomerRequest
  | UpdateBody UpdateCustomerRequest

definition stringlength :: "nat \<Rightarrow> nat \<Rightarrow> string \<Rightarrow> bool" where
  "stringlength lo hi str = (lo \<le> length str \<and> length str \<le> hi)"

definition check_login :: "(string \<Rightarrow> bool) \<Rightarrow> LoginCustomerRequest \<Rightarrow> error_message + LoginCustomerRequest" where
  "check_login isEmail q =
     (if \<not> isEmail (loginEmail q) then Inl (ValidationError ''Email'')
      else if \<not> stringlength 2 72 (loginPassword q) then Inl (ValidationError ''Password'')
      else Inr q)"

definition check_create :: "(string \<Rightarrow> bool) \<Rightarrow> CreateCustomerRequest \<Rightarrow> error_message + CreateCustomerRequest" where
  "check_create isEmail q =
     (if \<not> stringlength 2 20 (createFirstName q) then Inl (ValidationError ''FirstName'')
      else if \<not> stringlength 2 20 (createLastName q) then Inl (ValidationError ''LastName'')
      else if \<not> phonenumber (createPhoneNumber q) then Inl (ValidationError ''PhoneNumber'')
      else if \<not> isEmail (createEmail q) then Inl (ValidationError ''Email'')
      else if \<not> stringlength 2 72 (createPassword q) then Inl (ValidationError ''Password'')
      else Inr q)"

definition check_update :: "(string \<Rightarrow> bool) \<Rightarrow> UpdateCustomerRequest \<Rightarrow> error_message + UpdateCustomerRequest" where
  "check_update isEmail q =
     (if \<not> stringlength 2 20 (updateFirstName q) then Inl (ValidationError ''FirstName'')
      else if \<not> stringlength 2 20 (updateLastName q) then Inl (ValidationError ''LastName'')
      else if \<not> phonenumber (updatePhoneNumber q) then Inl (ValidationError ''PhoneNumber'')
      else if \<not> isEmail (updateEmail q) then Inl (ValidationError ''Email'')
      else if \<not> stringlength 2 72 (updatePassword q) then Inl (ValidationError ''Password'')
      else Inr q)"

definition RefValidate :: "(string \<Rightarrow> bool) \<Rightarrow> json_body ValidateRequest" where
  "RefValidate isEmail =
     \<lparr>intoLogin = (\<lambda>b. case b of LoginBody q \<Rightarrow> check_login isEmail q
                              | _ \<Rightarrow> Inl (ValidationError ''body'')),
      intoCreate = (\<lambda>b. case b of CreateBody q \<Rightarrow> check_create isEmail q
                               | _ \<Rightarrow> Inl (ValidationError ''body'')),
      intoUpdate = (\<lambda>b. case b of UpdateBody q \<Rightarrow> check_update isEmail q
                               | _ \<Rightarrow> Inl (ValidationError ''body''))\<rparr>"

definition has_at :: "string \<Rightarrow> bool" where
  \<comment> \<open>the matcher the examples pass for \<open>email\<close>\<close>
  "has_at str = List.member str CHR ''@''"

section \<open>The Ownership Authorizer and the address handlers\<close>











section \<open>Example data\<close>

text \<open>
  The two customers of the tests (\<open>TestGetUser\<close> names them and gives Peter the id 0 and Alice
  the id 1), three addresses as \<open>address_test.go\<close> uses them, a secret and an instant.
\<close>

definition PeterCustomer :: Customer where
  "PeterCustomer =
     \<lparr>ID = 0, FirstName = ''Peter'', LastName = ''Smith'', PhoneNumber = ''+359 88 576 5981'',
      Email = ''petesmith@gmail.com'', Password = ''firefirefire''\<rparr>"

definition AliceCustomer :: Customer where
  "AliceCustomer =
     \<lparr>ID = 1, FirstName = ''Alice'', LastName = ''Johnson'', PhoneNumber = ''+359 88 444 2222'',
      Email = ''alicejohn@gmail.com'', Password = ''helloJohn123''\<rparr>"




definition testSecret :: bytes where
  "testSecret = bytes_of_string ''secret''"

definition testNow :: go_time where
  \<comment> \<open>2023-11-14 22:13:20.5 UTC\<close>
  "testNow = 1700000000500000000"

definition newGetCustomerRequest :: "wire_string \<Rightarrow> json_body Request" where
  \<comment> \<open>the request the tests build: \<open>GET /customer/\<close> with the token in the \<open>Token\<close> header\<close>
  "newGetCustomerRequest jwt =
     \<lparr>reqMethod = ''GET'', reqHeader = Header_Add Map.empty ''Token'' jwt, reqBody = NoBody\<rparr>"

definition testServer :: "Customer list CustomerServer" where
  "testServer = \<lparr>secretKey = testSecret, expiresAt = testNow + 3600000000000, store = MemStore\<rparr>"

definition testWorld :: "Customer list World" where
  "testWorld = \<lparr>storeState = [PeterCustomer, AliceCustomer], storeCalls = []\<rparr>"

definition emptyWorld :: "Customer list World" where
  "emptyWorld = \<lparr>storeState = [], storeCalls = []\<rparr>"

definition PeterCreateRequest :: CreateCustomerRequest where
  \<comment> \<open>the payload of \<open>TestCreateUser\<close>\<close>
  "PeterCreateRequest =
     \<lparr>createFirstName = ''Peter'', createLastName = ''Smith'',
      createPhoneNumber = ''+359 88 576 5981'', createEmail = ''petesmith@gmail.com'',
      createPassword = ''firefirefire''\<rparr>"

definition PeterLoginRequest :: LoginCustomerRequest where
  "PeterLoginRequest = \<lparr>loginEmail = ''petesmith@gmail.com'', loginPassword = ''firefirefire''\<rparr>"

definition PeterUpdateRequest :: UpdateCustomerRequest where
  "PeterUpdateRequest =
     \<lparr>updateFirstName = ''Peter'', updateLastName = ''Smith'',
      updatePhoneNumber = ''+359 88 576 5981'', updateEmail = ''petesmith@gmail.com'',
      updatePassword = ''waterwater''\<rparr>"

definition newRequest :: "string \<Rightarrow> wire_string option \<Rightarrow> json_body \<Rightarrow> json_body Request" where
  \<comment> \<open>a request as it arrives: a method, a body, and a \<open>Token\<close> header when a token is sent\<close>
  "newRequest method jwt b =
     \<lparr>reqMethod = method,
      reqHeader = (case jwt of None \<Rightarrow> Map.empty | Some t \<Rightarrow> Header_Add Map.empty ''Token'' t),
      reqBody = b\<rparr>"

section \<open>Decimal rendering and parsing are inverse\<close>

declare format_digits.simps [simp del]

lemma is_digit_digit_char: "0 \<le> d \<Longrightarrow> d < 10 \<Longrightarrow> is_digit (digit_char d)"
  by (simp add: is_digit_def digit_char_def)

lemma digit_value_digit_char: "0 \<le> d \<Longrightarrow> d < 10 \<Longrightarrow> digit_value (digit_char d) = d"
  by (simp add: digit_value_def digit_char_def)

lemma parse_digits_append:
  "parse_digits acc (xs @ [c]) =
     (case parse_digits acc xs of
        None \<Rightarrow> None
      | Some v \<Rightarrow> if is_digit c then Some (v * 10 + digit_value c) else None)"
  by (induction xs arbitrary: acc) auto

lemma parse_digits_format_digits: "0 \<le> n \<Longrightarrow> parse_digits 0 (format_digits n) = Some n"
proof (induction n rule: format_digits.induct)
  case (1 n)
  show ?case
  proof (cases "n < 10")
    case True
    with 1 show ?thesis
      by (simp add: format_digits.simps [of n] is_digit_digit_char digit_value_digit_char)
  next
    case False
    with 1 have "parse_digits 0 (format_digits (n div 10)) = Some (n div 10)" by simp
    with False show ?thesis
      by (simp add: format_digits.simps [of n] parse_digits_append is_digit_digit_char
          digit_value_digit_char)
  qed
qed

lemma format_digits_not_Nil: "format_digits n \<noteq> []"
  by (subst format_digits.simps) simp

lemma format_digits_digits: "0 \<le> n \<Longrightarrow> list_all is_digit (format_digits n)"
proof (induction n rule: format_digits.induct)
  case (1 n)
  then show ?case
    by (subst format_digits.simps) (simp add: is_digit_digit_char)
qed

lemma ParseUint_format_digits: "0 \<le> n \<Longrightarrow> ParseUint (format_digits n) = Inr n"
  by (simp add: ParseUint_def format_digits_not_Nil parse_digits_format_digits)

lemma is_digit_not_sign: "is_digit c \<Longrightarrow> c \<noteq> CHR ''-'' \<and> c \<noteq> CHR ''+''"
  by (auto simp: is_digit_def)

lemma format_digits_hd:
  "0 \<le> n \<Longrightarrow> \<exists>c cs. format_digits n = c # cs \<and> c \<noteq> CHR ''-'' \<and> c \<noteq> CHR ''+''"
proof -
  assume n: "0 \<le> n"
  obtain c cs where eq: "format_digits n = c # cs"
    using format_digits_not_Nil [of n] by (cases "format_digits n") auto
  with format_digits_digits [OF n] have "is_digit c" by simp
  with eq show ?thesis using is_digit_not_sign by blast
qed

lemma FormatInt_not_Nil: "FormatInt i \<noteq> []"
  by (simp add: FormatInt_def format_digits_not_Nil)

lemma Atoi_Itoa: "Atoi (Itoa i) = Inr i"
proof (cases "sint i < 0")
  case True
  have "- (2 ^ 63) \<le> sint i" using sint_ge [of i] by simp
  then have "- sint i \<le> 9223372036854775808" by simp
  with True show ?thesis
    by (simp add: Itoa_def FormatInt_def Atoi_def ParseUint_format_digits)
next
  case False
  then have nn: "0 \<le> sint i" by simp
  obtain c cs where eq: "format_digits (sint i) = c # cs"
    and c: "c \<noteq> CHR ''-''" "c \<noteq> CHR ''+''"
    using format_digits_hd [OF nn] by blast
  have "sint i < 2 ^ 63" using sint_lt [of i] by simp
  then have b: "sint i < 9223372036854775808" by simp
  have "ParseUint (c # cs) = Inr (sint i)"
    using ParseUint_format_digits [OF nn] eq by simp
  with False eq c b show ?thesis
    by (simp add: Itoa_def FormatInt_def Atoi_def)
qed

section \<open>Verification, case by case\<close>

lemma HS256_registered: "SigningMethodHS256_Name \<in> set registered_methods"
  by (simp add: registered_methods_def SigningMethodHS256_Name_def)

lemma VerifyJWT_Plain: "VerifyJWT now (Plain s) key = Inl ErrTokenMalformed"
  by (simp add: VerifyJWT_def jwt_Parse_def)

lemma VerifyJWT_Compact:
  "VerifyJWT now (Compact alg c sig) key =
     (if \<not> List.member registered_methods alg then Inl ErrTokenUnverifiable
      else if alg \<noteq> SigningMethodHS256_Name then Inl ErrTokenSignatureInvalid
      else if sig \<noteq> hmac_sha256 key (SigningString alg c) then Inl ErrTokenSignatureInvalid
      else case validate_claims now c of
             Some e \<Rightarrow> Inl e
           | None \<Rightarrow> Inr \<lparr>Method = alg, Claims = c, Signature = sig, Valid = True\<rparr>)"
  by (simp add: VerifyJWT_def jwt_Parse_def SigningMethodHS256_Verify_def Let_def
      split: option.splits)

lemma VerifyJWT_SignedString:
  "VerifyJWT now (SignedString SigningMethodHS256_Name c key) key =
     (case validate_claims now c of
        Some e \<Rightarrow> Inl e
      | None \<Rightarrow> Inr \<lparr>Method = SigningMethodHS256_Name, Claims = c,
                      Signature = hmac_sha256 key (SigningString SigningMethodHS256_Name c),
                      Valid = True\<rparr>)"
  by (simp add: SignedString_def SigningMethodHS256_Sign_def VerifyJWT_Compact HS256_registered)

section \<open>Issuing and verifying a token\<close>



section \<open>What the handlers read of the request\<close>

lemma subject_of_fresh:
  "subject_of \<lparr>reqMethod = m, reqHeader = Header_Add Map.empty ''Subject'' (Plain (Itoa i)),
               reqBody = b\<rparr> = Inr i"
  by (simp add: subject_of_def Header_Add_def wire_Atoi_def Atoi_Itoa)

section \<open>The customer response\<close>

text \<open>
  Claim C9. Two customer records that differ only in \<open>Password\<close> give the same
  \<open>GetCustomerResponse\<close>, under \<open>newGetCustomerResponse\<close> and under
  \<open>CustomerToGetCustomerResponse\<close>; and \<open>GET /customer/\<close> answers the same, status, header
  and body, whichever of the two records the store holds for the subject: the body is the
  response built from the fields other than the password.
\<close>

theorem get_response_ignores_password:
  assumes "subject_of r = Inr i"
    and "GetCustomerById (store c1) (storeState wd1) i = Inr customer"
    and "GetCustomerById (store c2) (storeState wd2) i = Inr (customer\<lparr>Password := p\<rparr>)"
  shows "newGetCustomerResponse (customer\<lparr>Password := p\<rparr>) = newGetCustomerResponse customer \<and>
         CustomerToGetCustomerResponse (customer\<lparr>Password := p\<rparr>) =
           CustomerToGetCustomerResponse customer \<and>
         (\<exists>w1 wd1' w2 wd2'.
            getCustomer c1 w r wd1 = Inr (w1, wd1') \<and>
            getCustomer c2 w r wd2 = Inr (w2, wd2') \<and>
            Result w1 = Result w2 \<and>
            ResponseBody (Result w1) =
              body w @ [GetCustomerResponseJSON (newGetCustomerResponse customer)])"
  using assms
  by (simp add: newGetCustomerResponse_def CustomerToGetCustomerResponse_def getCustomer_def
      call_GetCustomerById_def Result_def Encode_def WriteHeader_def Let_def)

theorem get_response_ignores_password_witness:
  "newGetCustomerResponse (PeterCustomer\<lparr>Password := ''waterwater''\<rparr>) =
     newGetCustomerResponse PeterCustomer \<and>
   (\<exists>w1 wd1' w2 wd2'.
      getCustomer testServer NewResponseWriter
        \<lparr>reqMethod = ''GET'', reqHeader = Header_Add Map.empty ''Subject'' (Plain (Itoa 0)),
         reqBody = NoBody\<rparr> testWorld = Inr (w1, wd1') \<and>
      getCustomer testServer NewResponseWriter
        \<lparr>reqMethod = ''GET'', reqHeader = Header_Add Map.empty ''Subject'' (Plain (Itoa 0)),
         reqBody = NoBody\<rparr>
        (testWorld\<lparr>storeState := [PeterCustomer\<lparr>Password := ''waterwater''\<rparr>, AliceCustomer]\<rparr>)
        = Inr (w2, wd2') \<and>
      Result w1 = Result w2)"
proof -
  let ?r = "\<lparr>reqMethod = ''GET'', reqHeader = Header_Add Map.empty ''Subject'' (Plain (Itoa 0)),
         reqBody = NoBody\<rparr> :: json_body Request"
  have s: "subject_of ?r = Inr 0" by (rule subject_of_fresh)
  have a: "GetCustomerById (store testServer) (storeState testWorld) 0 = Inr PeterCustomer"
    by (simp add: testServer_def testWorld_def MemStore_def mem_GetCustomerById_def PeterCustomer_def)
  have b: "GetCustomerById (store testServer)
             (storeState (testWorld\<lparr>storeState :=
                [PeterCustomer\<lparr>Password := ''waterwater''\<rparr>, AliceCustomer]\<rparr>)) 0
           = Inr (PeterCustomer\<lparr>Password := ''waterwater''\<rparr>)"
    by (simp add: testServer_def testWorld_def MemStore_def mem_GetCustomerById_def PeterCustomer_def)
  from get_response_ignores_password [OF s a b, of NewResponseWriter] show ?thesis by blast
qed

text \<open>
  Claim C10. The response \<open>CustomerToGetCustomerResponse\<close> builds has \<open>Id\<close> 0 whatever the id
  of the customer: the response type declares the field and the conversion leaves it out.
\<close>

theorem response_id_is_zero:
  "hrespId (CustomerToGetCustomerResponse customer) = 0"
  by (simp add: CustomerToGetCustomerResponse_def)

section \<open>Ownership\<close>



section \<open>The authentication gate\<close>

lemma Token_newGetCustomerRequest:
  "reqHeader (newGetCustomerRequest jwt) ''Token'' = Some [jwt]"
  by (simp add: newGetCustomerRequest_def Header_Add_def)

lemma testNow_valid:
  "validate_claims (testNow + 1)
     \<lparr>claimSub = s, claimExp = ExpAt (NewNumericDate (testNow + 3600000000000))\<rparr> = None"
  by (simp add: validate_claims_def testNow_def NewNumericDate_def)

text \<open>
  Claim C3. Whatever the downstream handler, the middleware answers by itself, with status
  401 and the message of the case, and leaves the state behind the handler as it was, in
  four cases: no \<open>Token\<close> header (\<open>ErrMissingToken\<close>); a token that \<open>VerifyJWT\<close> rejects (the
  message of the verification error); a verified token whose subject cannot be read or is
  empty (\<open>ErrMissingSubject\<close>); a subject that \<open>strconv.Atoi\<close> rejects
  (\<open>ErrNonIntegerSubject\<close>). The answer in these cases does not mention the handler, so it is
  not run. In the one case left the middleware adds the parsed id, in decimal, to the
  \<open>Subject\<close> header of the request and the result is the handler's, run on that request. A
  \<open>Token\<close> key with an empty list of values, which a request read from the network never
  has, is the one request outside these cases: indexing it panics.
\<close>

theorem authentication_gate:
  fixes endpointHandler :: "('b, 's) HandlerFunc"
  shows
  "(reqHeader r ''Token'' = None \<longrightarrow>
      AuthenticationMiddleware endpointHandler key now w r st =
        Inr (Encode (ErrorResponse ErrMissingToken) (WriteHeader StatusUnauthorized w), st)) \<and>
   (reqHeader r ''Token'' = Some (t # ts) \<and> VerifyJWT now t key = Inl err \<longrightarrow>
      AuthenticationMiddleware endpointHandler key now w r st =
        Inr (Encode (ErrorResponse (JWTError err)) (WriteHeader StatusUnauthorized w), st)) \<and>
   (reqHeader r ''Token'' = Some (t # ts) \<and> VerifyJWT now t key = Inr token \<and>
    (GetSubject (Claims token) = Inl err' \<or> GetSubject (Claims token) = Inr []) \<longrightarrow>
      AuthenticationMiddleware endpointHandler key now w r st =
        Inr (Encode (ErrorResponse ErrMissingSubject) (WriteHeader StatusUnauthorized w), st)) \<and>
   (reqHeader r ''Token'' = Some (t # ts) \<and> VerifyJWT now t key = Inr token \<and>
    GetSubject (Claims token) = Inr subject \<and> subject \<noteq> [] \<and> Atoi subject = Inl nerr \<longrightarrow>
      AuthenticationMiddleware endpointHandler key now w r st =
        Inr (Encode (ErrorResponse ErrNonIntegerSubject) (WriteHeader StatusUnauthorized w), st)) \<and>
   (reqHeader r ''Token'' = Some (t # ts) \<and> VerifyJWT now t key = Inr token \<and>
    GetSubject (Claims token) = Inr subject \<and> subject \<noteq> [] \<and> Atoi subject = Inr i \<longrightarrow>
      AuthenticationMiddleware endpointHandler key now w r st =
        endpointHandler w
          (r\<lparr>reqHeader := Header_Add (reqHeader r) ''Subject'' (Plain (Itoa i))\<rparr>) st) \<and>
   (\<not> wroteHeader w \<longrightarrow>
      StatusCode (Result (Encode (ErrorResponse msg) (WriteHeader StatusUnauthorized w))) =
        StatusUnauthorized \<and>
      ResponseBody (Result (Encode (ErrorResponse msg) (WriteHeader StatusUnauthorized w))) =
        body w @ [ErrorResponse msg])"
proof (intro conjI impI)
  show "StatusCode (Result (Encode (ErrorResponse msg) (WriteHeader StatusUnauthorized w))) =
        StatusUnauthorized" if "\<not> wroteHeader w"
    using that by (simp add: Result_def Encode_def WriteHeader_def Let_def)
  show "ResponseBody (Result (Encode (ErrorResponse msg) (WriteHeader StatusUnauthorized w))) =
        body w @ [ErrorResponse msg]" if "\<not> wroteHeader w"
    using that by (simp add: Result_def Encode_def WriteHeader_def Let_def)
qed (auto simp: AuthenticationMiddleware_def getIDFromToken_def)

theorem authentication_gate_witness:
  "AuthenticationMiddleware (getCustomer testServer) testSecret (testNow + 1) NewResponseWriter
     \<lparr>reqMethod = ''GET'', reqHeader = Map.empty, reqBody = NoBody\<rparr> testWorld =
     Inr (Encode (ErrorResponse ErrMissingToken) (WriteHeader StatusUnauthorized NewResponseWriter),
          testWorld) \<and>
   AuthenticationMiddleware (getCustomer testServer) testSecret (testNow + 1) NewResponseWriter
     (newGetCustomerRequest (Plain ''thisIsAnInvalidJWT'')) testWorld =
     Inr (Encode (ErrorResponse (JWTError ErrTokenMalformed))
            (WriteHeader StatusUnauthorized NewResponseWriter), testWorld) \<and>
   AuthenticationMiddleware (getCustomer testServer) testSecret (testNow + 1) NewResponseWriter
     (newGetCustomerRequest (token_of (GenerateJWTWithoutSubject testSecret 3600000000000 testNow)))
     testWorld =
     Inr (Encode (ErrorResponse ErrMissingSubject)
            (WriteHeader StatusUnauthorized NewResponseWriter), testWorld) \<and>
   AuthenticationMiddleware (getCustomer testServer) testSecret (testNow + 1) NewResponseWriter
     (newGetCustomerRequest
        (token_of (GenerateJWTWithStringSubject testSecret 3600000000000 ''abc'' testNow)))
     testWorld =
     Inr (Encode (ErrorResponse ErrNonIntegerSubject)
            (WriteHeader StatusUnauthorized NewResponseWriter), testWorld) \<and>
   AuthenticationMiddleware (getCustomer testServer) testSecret (testNow + 1) NewResponseWriter
     (newGetCustomerRequest (token_of (GenerateJWT testSecret 3600000000000 1 testNow)))
     testWorld =
     getCustomer testServer NewResponseWriter
       ((newGetCustomerRequest (token_of (GenerateJWT testSecret 3600000000000 1 testNow)))
          \<lparr>reqHeader :=
             Header_Add
               (reqHeader
                  (newGetCustomerRequest (token_of (GenerateJWT testSecret 3600000000000 1 testNow))))
               ''Subject'' (Plain (Itoa 1))\<rparr>)
       testWorld \<and>
   StatusCode (Result (Encode (ErrorResponse ErrMissingToken)
                         (WriteHeader StatusUnauthorized NewResponseWriter))) = StatusUnauthorized"
proof -
  let ?h = "getCustomer testServer :: (json_body, Customer list World) HandlerFunc"
  let ?exp = "ExpAt (NewNumericDate (testNow + 3600000000000))"
  let ?r0 = "\<lparr>reqMethod = ''GET'', reqHeader = Map.empty, reqBody = NoBody\<rparr> :: json_body Request"
  have c1: "reqHeader ?r0 ''Token'' = None" by simp
  note g1 = authentication_gate [of ?r0 ?h testSecret "testNow + 1" NewResponseWriter testWorld]
  let ?t2 = "Plain ''thisIsAnInvalidJWT''"
  have c2: "VerifyJWT (testNow + 1) ?t2 testSecret = Inl ErrTokenMalformed"
    by (rule VerifyJWT_Plain)
  note g2 = authentication_gate [of "newGetCustomerRequest ?t2" ?h testSecret "testNow + 1"
      NewResponseWriter testWorld ?t2 "[]" ErrTokenMalformed]
  let ?c3 = "\<lparr>claimSub = SubAbsent, claimExp = ?exp\<rparr>"
  let ?t3 = "SignedString SigningMethodHS256_Name ?c3 testSecret"
  let ?k3 = "\<lparr>Method = SigningMethodHS256_Name, Claims = ?c3,
              Signature = hmac_sha256 testSecret (SigningString SigningMethodHS256_Name ?c3),
              Valid = True\<rparr>"
  have e3: "token_of (GenerateJWTWithoutSubject testSecret 3600000000000 testNow) = ?t3"
    by (simp add: token_of_def GenerateJWTWithoutSubject_def)
  have c3: "VerifyJWT (testNow + 1) ?t3 testSecret = Inr ?k3"
    by (simp add: VerifyJWT_SignedString testNow_valid)
  have s3: "GetSubject (Claims ?k3) = Inr []" by (simp add: GetSubject_def)
  note g3 = authentication_gate [of "newGetCustomerRequest ?t3" ?h testSecret "testNow + 1"
      NewResponseWriter testWorld ?t3 "[]" _ ?k3]
  let ?c4 = "\<lparr>claimSub = SubString ''abc'', claimExp = ?exp\<rparr>"
  let ?t4 = "SignedString SigningMethodHS256_Name ?c4 testSecret"
  let ?k4 = "\<lparr>Method = SigningMethodHS256_Name, Claims = ?c4,
              Signature = hmac_sha256 testSecret (SigningString SigningMethodHS256_Name ?c4),
              Valid = True\<rparr>"
  have e4: "token_of (GenerateJWTWithStringSubject testSecret 3600000000000 ''abc'' testNow) = ?t4"
    by (simp add: token_of_def GenerateJWTWithStringSubject_def)
  have c4: "VerifyJWT (testNow + 1) ?t4 testSecret = Inr ?k4"
    by (simp add: VerifyJWT_SignedString testNow_valid)
  have s4: "GetSubject (Claims ?k4) = Inr ''abc''" by (simp add: GetSubject_def)
  have a4: "Atoi ''abc'' = Inl ErrSyntax"
    by (simp add: Atoi_def ParseUint_def is_digit_def)
  note g4 = authentication_gate [of "newGetCustomerRequest ?t4" ?h testSecret "testNow + 1"
      NewResponseWriter testWorld ?t4 "[]" _ ?k4 _ "''abc''" ErrSyntax]
  let ?c5 = "\<lparr>claimSub = SubString (FormatInt (sint (1::go_int))), claimExp = ?exp\<rparr>"
  let ?t5 = "SignedString SigningMethodHS256_Name ?c5 testSecret"
  let ?k5 = "\<lparr>Method = SigningMethodHS256_Name, Claims = ?c5,
              Signature = hmac_sha256 testSecret (SigningString SigningMethodHS256_Name ?c5),
              Valid = True\<rparr>"
  have e5: "token_of (GenerateJWT testSecret 3600000000000 1 testNow) = ?t5"
    by (simp add: token_of_def GenerateJWT_def)
  have c5: "VerifyJWT (testNow + 1) ?t5 testSecret = Inr ?k5"
    by (simp add: VerifyJWT_SignedString testNow_valid)
  have s5: "GetSubject (Claims ?k5) = Inr (FormatInt (sint (1::go_int)))"
    by (simp add: GetSubject_def)
  have a5: "Atoi (FormatInt (sint (1::go_int))) = Inr 1"
    using Atoi_Itoa [of 1] by (simp only: Itoa_def)
  note g5 = authentication_gate [of "newGetCustomerRequest ?t5" ?h testSecret "testNow + 1"
      NewResponseWriter testWorld ?t5 "[]" _ ?k5 _ "FormatInt (sint (1::go_int))" _ 1]
  have n: "\<not> wroteHeader NewResponseWriter" by (simp add: NewResponseWriter_def)
  note g6 = authentication_gate [of ?r0 ?h testSecret "testNow + 1" NewResponseWriter testWorld
      _ _ _ _ _ _ _ _ ErrMissingToken]
  have p1: "AuthenticationMiddleware ?h testSecret (testNow + 1) NewResponseWriter ?r0 testWorld =
     Inr (Encode (ErrorResponse ErrMissingToken) (WriteHeader StatusUnauthorized NewResponseWriter),
          testWorld)"
    using g1 c1 by blast
  have p2: "AuthenticationMiddleware ?h testSecret (testNow + 1) NewResponseWriter
     (newGetCustomerRequest ?t2) testWorld =
     Inr (Encode (ErrorResponse (JWTError ErrTokenMalformed))
            (WriteHeader StatusUnauthorized NewResponseWriter), testWorld)"
    using g2 c2 Token_newGetCustomerRequest [of ?t2] by blast
  have p3: "AuthenticationMiddleware ?h testSecret (testNow + 1) NewResponseWriter
     (newGetCustomerRequest ?t3) testWorld =
     Inr (Encode (ErrorResponse ErrMissingSubject)
            (WriteHeader StatusUnauthorized NewResponseWriter), testWorld)"
    using g3 c3 s3 Token_newGetCustomerRequest [of ?t3] by blast
  have p4: "AuthenticationMiddleware ?h testSecret (testNow + 1) NewResponseWriter
     (newGetCustomerRequest ?t4) testWorld =
     Inr (Encode (ErrorResponse ErrNonIntegerSubject)
            (WriteHeader StatusUnauthorized NewResponseWriter), testWorld)"
    using g4 c4 s4 a4 Token_newGetCustomerRequest [of ?t4] by blast
  have p5: "AuthenticationMiddleware ?h testSecret (testNow + 1) NewResponseWriter
     (newGetCustomerRequest ?t5) testWorld =
     ?h NewResponseWriter
       ((newGetCustomerRequest ?t5)
          \<lparr>reqHeader := Header_Add (reqHeader (newGetCustomerRequest ?t5))
               ''Subject'' (Plain (Itoa 1))\<rparr>) testWorld"
    using g5 c5 s5 a5 Token_newGetCustomerRequest [of ?t5] FormatInt_not_Nil by blast
  have p6: "StatusCode (Result (Encode (ErrorResponse ErrMissingToken)
                         (WriteHeader StatusUnauthorized NewResponseWriter))) = StatusUnauthorized"
    using g6 n by blast
  from p1 p2 p3 p4 p5 p6 show ?thesis by (simp only: e3 e4 e5)
qed

section \<open>Which tokens verification rejects\<close>

lemma length_sha256: "length (sha256 m) = 32"
  by (simp add: sha256_def Let_def bytes_of_u32_def)

lemma length_hmac_sha256: "length (hmac_sha256 key m) = 32"
  by (simp add: hmac_sha256_def Let_def length_sha256)

lemma hmac_sha256_not_Nil: "hmac_sha256 key m \<noteq> []"
  using length_hmac_sha256 [of key m] by auto











section \<open>The example requests\<close>

lemma valid_PeterCreateRequest:
  "intoCreate (RefValidate has_at) (CreateBody PeterCreateRequest) = Inr PeterCreateRequest"
  by (simp add: RefValidate_def check_create_def PeterCreateRequest_def stringlength_def
      phonenumber_def is_digit_def has_at_def)

lemma valid_PeterUpdateRequest:
  "intoUpdate (RefValidate has_at) (UpdateBody PeterUpdateRequest) = Inr PeterUpdateRequest"
  by (simp add: RefValidate_def check_update_def PeterUpdateRequest_def stringlength_def
      phonenumber_def is_digit_def has_at_def)

lemma valid_PeterLoginRequest:
  "intoLogin (RefValidate has_at) (LoginBody PeterLoginRequest) = Inr PeterLoginRequest"
  by (simp add: RefValidate_def check_login_def PeterLoginRequest_def stringlength_def has_at_def)



lemma subject_of_authenticated:
  "subject_of ((newRequest method jwt b)
     \<lparr>reqHeader := Header_Add (reqHeader (newRequest method jwt b)) ''Subject'' (Plain (Itoa i))\<rparr>) = Inr i"
  by (cases jwt) (simp_all add: subject_of_def newRequest_def Header_Add_def wire_Atoi_def Atoi_Itoa)

lemma authenticated_request:
  "AuthenticationMiddleware endpointHandler testSecret (testNow + 1) w
     (newRequest method (Some (token_of (GenerateJWT testSecret 3600000000000 i testNow))) b) st =
   endpointHandler w
     ((newRequest method (Some (token_of (GenerateJWT testSecret 3600000000000 i testNow))) b)
        \<lparr>reqHeader :=
           Header_Add
             (reqHeader (newRequest method
                (Some (token_of (GenerateJWT testSecret 3600000000000 i testNow))) b))
             ''Subject'' (Plain (Itoa i))\<rparr>) st"
proof -
  have a: "Atoi (FormatInt (sint i)) = Inr i" using Atoi_Itoa [of i] by (simp only: Itoa_def)
  show ?thesis
    by (simp add: AuthenticationMiddleware_def newRequest_def Header_Add_def token_of_def
        GenerateJWT_def VerifyJWT_SignedString testNow_valid getIDFromToken_def GetSubject_def
        FormatInt_not_Nil a)
qed

lemma reqMethod_newRequest: "reqMethod (newRequest method jwt b) = method"
  by (simp add: newRequest_def)

lemma reqBody_newRequest: "reqBody (newRequest method jwt b) = b"
  by (simp add: newRequest_def)

lemma missing_customer_10:
  "GetCustomerById (store testServer) (storeState testWorld) 10 = Inl StoreError"
  by (simp add: testServer_def testWorld_def MemStore_def mem_GetCustomerById_def
      PeterCustomer_def AliceCustomer_def)

lemma updateCustomer_missing:
  assumes "subject_of r = Inr i"
    and "GetCustomerById (store c) (storeState wd) i = Inl e"
    and "intoUpdate V (reqBody r) = Inr q"
  shows "updateCustomer c V w r wd = Inl NilPointerDereference"
  using assms by (simp add: updateCustomer_def call_GetCustomerById_def)

lemma getCustomer_missing:
  assumes "subject_of r = Inr i"
    and "GetCustomerById (store c) (storeState wd) i = Inl e"
  shows "getCustomer c w r wd =
           Inr (Encode (ErrorResponse ErrMissingCustomer) (WriteHeader StatusNotFound w),
                wd\<lparr>storeCalls := storeCalls wd @ [CallGetCustomerById i]\<rparr>)"
  using assms by (simp add: getCustomer_def call_GetCustomerById_def)

lemma deleteCustomer_missing:
  assumes "subject_of r = Inr i"
    and "DeleteCustomer (store c) (storeState wd) i = (Some e, st)"
  shows "deleteCustomer c w r wd =
           Inr (Encode (ErrorResponse ErrMissingCustomer) (WriteHeader StatusNotFound w),
                \<lparr>storeState = st, storeCalls = storeCalls wd @ [CallDeleteCustomer i]\<rparr>)"
  using assms by (simp add: deleteCustomer_def call_DeleteCustomer_def)

section \<open>Validation and the store\<close>




section \<open>A subject without a customer record\<close>

text \<open>
  Claim C7 does not hold of the code for \<open>PUT /customer/\<close>. \<open>updateCustomer\<close> drops the error
  of the lookup; with a payload that passes validation it then writes through the nil
  pointer and panics, where \<open>getCustomer\<close> and \<open>deleteCustomer\<close> answer 404 with the
  missing-customer message. The three requests below carry a valid token for the subject
  10, which the store does not hold.
\<close>

theorem update_missing_customer_panics:
  "CustomerHandler testServer (RefValidate has_at) (testNow + 1) NewResponseWriter
     (newRequest ''PUT'' (Some (token_of (GenerateJWT testSecret 3600000000000 10 testNow)))
        (UpdateBody PeterUpdateRequest)) testWorld = Inl NilPointerDereference \<and>
   CustomerHandler testServer (RefValidate has_at) (testNow + 1) NewResponseWriter
     (newRequest ''GET'' (Some (token_of (GenerateJWT testSecret 3600000000000 10 testNow)))
        NoBody) testWorld =
     Inr (Encode (ErrorResponse ErrMissingCustomer) (WriteHeader StatusNotFound NewResponseWriter),
          testWorld\<lparr>storeCalls := [CallGetCustomerById 10]\<rparr>) \<and>
   CustomerHandler testServer (RefValidate has_at) (testNow + 1) NewResponseWriter
     (newRequest ''DELETE'' (Some (token_of (GenerateJWT testSecret 3600000000000 10 testNow)))
        NoBody) testWorld =
     Inr (Encode (ErrorResponse ErrMissingCustomer) (WriteHeader StatusNotFound NewResponseWriter),
          testWorld\<lparr>storeCalls := [CallDeleteCustomer 10]\<rparr>)"
proof -
  let ?t = "Some (token_of (GenerateJWT testSecret 3600000000000 10 testNow))"
  let ?V = "RefValidate has_at"
  have k: "secretKey testServer = testSecret" by (simp add: testServer_def)
  have d: "DeleteCustomer (store testServer) (storeState testWorld) 10 =
             (Some StoreError, storeState testWorld)"
    by (simp add: testServer_def testWorld_def MemStore_def mem_DeleteCustomer_def
        PeterCustomer_def AliceCustomer_def)
  have c0: "storeCalls testWorld = []" by (simp add: testWorld_def)
  have u: "CustomerHandler testServer ?V (testNow + 1) NewResponseWriter
     (newRequest ''PUT'' ?t (UpdateBody PeterUpdateRequest)) testWorld = Inl NilPointerDereference"
  proof -
    let ?r = "newRequest ''PUT'' ?t (UpdateBody PeterUpdateRequest)"
    let ?r' = "?r\<lparr>reqHeader := Header_Add (reqHeader ?r) ''Subject'' (Plain (Itoa 10))\<rparr>"
    have "CustomerHandler testServer ?V (testNow + 1) NewResponseWriter ?r testWorld =
          AuthenticationMiddleware (updateCustomer testServer ?V) testSecret (testNow + 1)
            NewResponseWriter ?r testWorld"
      by (simp add: CustomerHandler_def reqMethod_newRequest k)
    also have "\<dots> = updateCustomer testServer ?V NewResponseWriter ?r' testWorld"
      by (rule authenticated_request)
    also have "\<dots> = Inl NilPointerDereference"
    proof (rule updateCustomer_missing [OF subject_of_authenticated missing_customer_10])
      show "intoUpdate ?V (reqBody ?r') = Inr PeterUpdateRequest"
        by (simp add: reqBody_newRequest valid_PeterUpdateRequest)
    qed
    finally show ?thesis .
  qed
  have g: "CustomerHandler testServer ?V (testNow + 1) NewResponseWriter
     (newRequest ''GET'' ?t NoBody) testWorld =
     Inr (Encode (ErrorResponse ErrMissingCustomer) (WriteHeader StatusNotFound NewResponseWriter),
          testWorld\<lparr>storeCalls := [CallGetCustomerById 10]\<rparr>)"
  proof -
    let ?r = "newRequest ''GET'' ?t NoBody"
    let ?r' = "?r\<lparr>reqHeader := Header_Add (reqHeader ?r) ''Subject'' (Plain (Itoa 10))\<rparr>"
    have "CustomerHandler testServer ?V (testNow + 1) NewResponseWriter ?r testWorld =
          AuthenticationMiddleware (getCustomer testServer) testSecret (testNow + 1)
            NewResponseWriter ?r testWorld"
      by (simp add: CustomerHandler_def reqMethod_newRequest k)
    also have "\<dots> = getCustomer testServer NewResponseWriter ?r' testWorld"
      by (rule authenticated_request)
    also have "\<dots> = Inr (Encode (ErrorResponse ErrMissingCustomer)
                           (WriteHeader StatusNotFound NewResponseWriter),
                         testWorld\<lparr>storeCalls := storeCalls testWorld @ [CallGetCustomerById 10]\<rparr>)"
      by (rule getCustomer_missing [OF subject_of_authenticated missing_customer_10])
    finally show ?thesis by (simp add: c0)
  qed
  have x: "CustomerHandler testServer ?V (testNow + 1) NewResponseWriter
     (newRequest ''DELETE'' ?t NoBody) testWorld =
     Inr (Encode (ErrorResponse ErrMissingCustomer) (WriteHeader StatusNotFound NewResponseWriter),
          testWorld\<lparr>storeCalls := [CallDeleteCustomer 10]\<rparr>)"
  proof -
    let ?r = "newRequest ''DELETE'' ?t NoBody"
    let ?r' = "?r\<lparr>reqHeader := Header_Add (reqHeader ?r) ''Subject'' (Plain (Itoa 10))\<rparr>"
    have "CustomerHandler testServer ?V (testNow + 1) NewResponseWriter ?r testWorld =
          AuthenticationMiddleware (deleteCustomer testServer) testSecret (testNow + 1)
            NewResponseWriter ?r testWorld"
      by (simp add: CustomerHandler_def reqMethod_newRequest k)
    also have "\<dots> = deleteCustomer testServer NewResponseWriter ?r' testWorld"
      by (rule authenticated_request)
    also have "\<dots> = Inr (Encode (ErrorResponse ErrMissingCustomer)
                           (WriteHeader StatusNotFound NewResponseWriter),
                         \<lparr>storeState = storeState testWorld,
                          storeCalls = storeCalls testWorld @ [CallDeleteCustomer 10]\<rparr>)"
      by (rule deleteCustomer_missing [OF subject_of_authenticated d])
    finally show ?thesis by (simp add: testWorld_def)
  qed
  from u g x show ?thesis by blast
qed

section \<open>The token of a creation and of a login\<close>

lemma Result_header_after_status:
  "\<not> wroteHeader w \<Longrightarrow>
   Result (w_Header_Add key v (WriteHeader code w)) =
     \<lparr>StatusCode = code, ResponseHeader = handlerHeader w, ResponseBody = body w\<rparr>"
  by (simp add: Result_def w_Header_Add_def WriteHeader_def Let_def)

lemma storeCustomer_success:
  assumes "intoCreate V (reqBody r) = Inr q"
    and "GetCustomerByEmail (store c) (storeState wd) (createEmail q) = Inl e"
    and "StoreCustomer (store c) (storeState wd) (getCustomerFromCreateCustomerRequest q) = (i, st)"
  shows "storeCustomer c V w r wd =
           Inr (w_Header_Add ''Token'' (token_of (generateJWT (secretKey c) (expiresAt c) i))
                  (WriteHeader StatusAccepted w),
                \<lparr>storeState = st,
                 storeCalls = storeCalls wd @
                   [CallGetCustomerByEmail (createEmail q),
                    CallStoreCustomer (getCustomerFromCreateCustomerRequest q)]\<rparr>)"
  using assms
  by (simp add: storeCustomer_def call_GetCustomerByEmail_def call_StoreCustomer_def Let_def)

lemma LoginHandler_success:
  assumes "intoLogin V (reqBody r) = Inr q"
    and "GetCustomerByEmail (store c) (storeState wd) (loginEmail q) = Inr customer"
    and "Password customer = loginPassword q"
  shows "LoginHandler c V w r wd =
           Inr (w_Header_Add ''Token''
                  (token_of (generateJWT (secretKey c) (expiresAt c) (ID customer)))
                  (WriteHeader StatusAccepted w),
                wd\<lparr>storeCalls := storeCalls wd @ [CallGetCustomerByEmail (loginEmail q)]\<rparr>)"
  using assms
  by (simp add: LoginHandler_def call_GetCustomerByEmail_def Let_def)

text \<open>
  Claim C8 does not hold of the code for the response that is sent. \<open>storeCustomer\<close> and
  \<open>LoginHandler\<close> call \<open>WriteHeader(202)\<close> first and add the \<open>Token\<close> header afterwards; the
  header map is edited, which is what a response recorder's \<open>Header()\<close> shows, and the
  response that went out with the status has no \<open>Token\<close> header.
\<close>

theorem token_header_after_status:
  "CustomerHandler testServer (RefValidate has_at) testNow NewResponseWriter
     (newRequest ''POST'' None (CreateBody PeterCreateRequest)) emptyWorld =
     Inr (w_Header_Add ''Token'' (token_of (generateJWT testSecret (expiresAt testServer) 1))
            (WriteHeader StatusAccepted NewResponseWriter),
          \<lparr>storeState = [PeterCustomer\<lparr>ID := 1\<rparr>],
           storeCalls = [CallGetCustomerByEmail ''petesmith@gmail.com'',
                         CallStoreCustomer PeterCustomer]\<rparr>) \<and>
   LoginHandler testServer (RefValidate has_at) NewResponseWriter
     (newRequest ''POST'' None (LoginBody PeterLoginRequest)) testWorld =
     Inr (w_Header_Add ''Token'' (token_of (generateJWT testSecret (expiresAt testServer) 0))
            (WriteHeader StatusAccepted NewResponseWriter),
          testWorld\<lparr>storeCalls := [CallGetCustomerByEmail ''petesmith@gmail.com'']\<rparr>) \<and>
   Result (w_Header_Add ''Token'' (token_of (generateJWT testSecret (expiresAt testServer) 1))
             (WriteHeader StatusAccepted NewResponseWriter)) =
     \<lparr>StatusCode = StatusAccepted, ResponseHeader = Map.empty, ResponseBody = []\<rparr> \<and>
   Result (w_Header_Add ''Token'' (token_of (generateJWT testSecret (expiresAt testServer) 0))
             (WriteHeader StatusAccepted NewResponseWriter)) =
     \<lparr>StatusCode = StatusAccepted, ResponseHeader = Map.empty, ResponseBody = []\<rparr> \<and>
   handlerHeader
     (w_Header_Add ''Token'' (token_of (generateJWT testSecret (expiresAt testServer) 1))
        (WriteHeader StatusAccepted NewResponseWriter)) ''Token'' =
     Some [token_of (generateJWT testSecret (expiresAt testServer) 1)]"
proof -
  let ?V = "RefValidate has_at"
  have k: "secretKey testServer = testSecret" by (simp add: testServer_def)
  have n: "\<not> wroteHeader NewResponseWriter" by (simp add: NewResponseWriter_def)
  have h: "handlerHeader NewResponseWriter = Map.empty" "body NewResponseWriter = []"
    by (simp_all add: NewResponseWriter_def)
  have g: "getCustomerFromCreateCustomerRequest PeterCreateRequest = PeterCustomer"
    by (simp add: getCustomerFromCreateCustomerRequest_def PeterCreateRequest_def PeterCustomer_def)
  have em: "createEmail PeterCreateRequest = ''petesmith@gmail.com''"
    by (simp add: PeterCreateRequest_def)
  have a: "storeCustomer testServer ?V NewResponseWriter
             (newRequest ''POST'' None (CreateBody PeterCreateRequest)) emptyWorld =
           Inr (w_Header_Add ''Token'' (token_of (generateJWT testSecret (expiresAt testServer) 1))
                  (WriteHeader StatusAccepted NewResponseWriter),
                \<lparr>storeState = [PeterCustomer\<lparr>ID := 1\<rparr>],
                 storeCalls = [CallGetCustomerByEmail ''petesmith@gmail.com'',
                               CallStoreCustomer PeterCustomer]\<rparr>)"
  proof -
    have 1: "intoCreate ?V (reqBody (newRequest ''POST'' None (CreateBody PeterCreateRequest))) =
               Inr PeterCreateRequest"
      by (simp add: reqBody_newRequest valid_PeterCreateRequest)
    have 2: "GetCustomerByEmail (store testServer) (storeState emptyWorld)
               (createEmail PeterCreateRequest) = Inl StoreError"
      by (simp add: testServer_def emptyWorld_def MemStore_def mem_GetCustomerByEmail_def)
    have 3: "StoreCustomer (store testServer) (storeState emptyWorld)
               (getCustomerFromCreateCustomerRequest PeterCreateRequest) =
             (1, [PeterCustomer\<lparr>ID := 1\<rparr>])"
      by (simp add: testServer_def emptyWorld_def MemStore_def mem_StoreCustomer_def g)
    from storeCustomer_success [OF 1 2 3, of NewResponseWriter]
    show ?thesis by (simp add: k g em emptyWorld_def)
  qed
  have b: "LoginHandler testServer ?V NewResponseWriter
             (newRequest ''POST'' None (LoginBody PeterLoginRequest)) testWorld =
           Inr (w_Header_Add ''Token'' (token_of (generateJWT testSecret (expiresAt testServer) 0))
                  (WriteHeader StatusAccepted NewResponseWriter),
                testWorld\<lparr>storeCalls := [CallGetCustomerByEmail ''petesmith@gmail.com'']\<rparr>)"
  proof -
    have 1: "intoLogin ?V (reqBody (newRequest ''POST'' None (LoginBody PeterLoginRequest))) =
               Inr PeterLoginRequest"
      by (simp add: reqBody_newRequest valid_PeterLoginRequest)
    have 2: "GetCustomerByEmail (store testServer) (storeState testWorld)
               (loginEmail PeterLoginRequest) = Inr PeterCustomer"
      by (simp add: testServer_def testWorld_def MemStore_def mem_GetCustomerByEmail_def
          PeterLoginRequest_def PeterCustomer_def)
    have 3: "Password PeterCustomer = loginPassword PeterLoginRequest"
      by (simp add: PeterLoginRequest_def PeterCustomer_def)
    from LoginHandler_success [OF 1 2 3, of NewResponseWriter]
    show ?thesis by (simp add: k testWorld_def PeterLoginRequest_def PeterCustomer_def)
  qed
  have c: "CustomerHandler testServer ?V testNow NewResponseWriter
             (newRequest ''POST'' None (CreateBody PeterCreateRequest)) emptyWorld =
           storeCustomer testServer ?V NewResponseWriter
             (newRequest ''POST'' None (CreateBody PeterCreateRequest)) emptyWorld"
    by (simp add: CustomerHandler_def reqMethod_newRequest)
  have r: "Result (w_Header_Add ''Token'' v (WriteHeader StatusAccepted NewResponseWriter)) =
           \<lparr>StatusCode = StatusAccepted, ResponseHeader = Map.empty, ResponseBody = []\<rparr>" for v
    by (simp add: Result_header_after_status [OF n] h)
  have l: "handlerHeader (w_Header_Add ''Token'' v (WriteHeader StatusAccepted NewResponseWriter))
             ''Token'' = Some [v]" for v
    by (simp add: w_Header_Add_def WriteHeader_def Header_Add_def NewResponseWriter_def)
  from a b c r l show ?thesis by simp
qed

section \<open>The subject the handlers act on\<close>

text \<open>
  Beyond the claims. The middleware adds the verified id to the \<open>Subject\<close> header with
  \<open>Header.Add\<close>, which appends, and the handlers read the first value of that header. A
  request that arrives with a \<open>Subject\<close> header of its own is therefore served for the subject
  it names, whatever subject its token was issued for: with Alice's token and
  \<open>Subject: 0\<close>, \<open>GET /customer/\<close> answers with Peter's record.
\<close>

theorem client_subject_header_wins:
  assumes "reqHeader r ''Subject'' = Some (Plain (Itoa j) # vs)"
    and "reqHeader r ''Token'' = Some (t # ts)"
    and "VerifyJWT now t key = Inr token"
    and "getIDFromToken token = Inr i"
  shows "subject_of (r\<lparr>reqHeader := Header_Add (reqHeader r) ''Subject'' (Plain (Itoa i))\<rparr>) = Inr j \<and>
         AuthenticationMiddleware (getCustomer c) key now w r wd =
           getCustomer c w
             (r\<lparr>reqHeader := Header_Add (reqHeader r) ''Subject'' (Plain (Itoa i))\<rparr>) wd \<and>
         (GetCustomerById (store c) (storeState wd) j = Inr customer \<longrightarrow>
            AuthenticationMiddleware (getCustomer c) key now w r wd =
              Inr (Encode (GetCustomerResponseJSON (newGetCustomerResponse customer)) w,
                   wd\<lparr>storeCalls := storeCalls wd @ [CallGetCustomerById j]\<rparr>))"
proof -
  let ?r' = "r\<lparr>reqHeader := Header_Add (reqHeader r) ''Subject'' (Plain (Itoa i))\<rparr>"
  have s: "subject_of ?r' = Inr j"
    using assms(1) by (simp add: subject_of_def Header_Add_def wire_Atoi_def Atoi_Itoa)
  have m: "AuthenticationMiddleware (getCustomer c) key now w r wd = getCustomer c w ?r' wd"
    using assms(2-4) by (simp add: AuthenticationMiddleware_def)
  have g: "getCustomer c w ?r' wd =
             Inr (Encode (GetCustomerResponseJSON (newGetCustomerResponse customer)) w,
                  wd\<lparr>storeCalls := storeCalls wd @ [CallGetCustomerById j]\<rparr>)"
    if "GetCustomerById (store c) (storeState wd) j = Inr customer"
    using that s by (simp add: getCustomer_def call_GetCustomerById_def)
  from s m g show ?thesis by simp
qed

theorem client_subject_header_wins_witness:
  "AuthenticationMiddleware (getCustomer testServer) testSecret (testNow + 1) NewResponseWriter
     ((newRequest ''GET'' None NoBody)
        \<lparr>reqHeader :=
           Header_Add (Header_Add Map.empty ''Subject'' (Plain (Itoa 0))) ''Token''
             (token_of (GenerateJWT testSecret 3600000000000 1 testNow))\<rparr>) testWorld =
     Inr (Encode (GetCustomerResponseJSON (newGetCustomerResponse PeterCustomer)) NewResponseWriter,
          testWorld\<lparr>storeCalls := storeCalls testWorld @ [CallGetCustomerById 0]\<rparr>)"
proof -
  let ?c = "\<lparr>claimSub = SubString (FormatInt (sint (1::go_int))),
             claimExp = ExpAt (NewNumericDate (testNow + 3600000000000))\<rparr>"
  let ?t = "SignedString SigningMethodHS256_Name ?c testSecret"
  let ?k = "\<lparr>Method = SigningMethodHS256_Name, Claims = ?c,
             Signature = hmac_sha256 testSecret (SigningString SigningMethodHS256_Name ?c),
             Valid = True\<rparr>"
  let ?r = "(newRequest ''GET'' None NoBody)
        \<lparr>reqHeader := Header_Add (Header_Add Map.empty ''Subject'' (Plain (Itoa 0))) ''Token'' ?t\<rparr>"
  have e: "token_of (GenerateJWT testSecret 3600000000000 1 testNow) = ?t"
    by (simp add: token_of_def GenerateJWT_def)
  have h1: "reqHeader ?r ''Subject'' = Some (Plain (Itoa 0) # [])"
    by (simp add: Header_Add_def)
  have h2: "reqHeader ?r ''Token'' = Some (?t # [])"
    by (simp add: Header_Add_def)
  have v: "VerifyJWT (testNow + 1) ?t testSecret = Inr ?k"
    by (simp add: VerifyJWT_SignedString testNow_valid)
  have a: "Atoi (FormatInt (sint (1::go_int))) = Inr 1"
    using Atoi_Itoa [of 1] by (simp only: Itoa_def)
  have i: "getIDFromToken ?k = Inr 1"
    using a by (simp add: getIDFromToken_def GetSubject_def FormatInt_not_Nil)
  have p: "GetCustomerById (store testServer) (storeState testWorld) 0 = Inr PeterCustomer"
    by (simp add: testServer_def testWorld_def MemStore_def mem_GetCustomerById_def PeterCustomer_def)
  from client_subject_header_wins [OF h1 h2 v i, of testServer NewResponseWriter testWorld
      PeterCustomer] p
  have "AuthenticationMiddleware (getCustomer testServer) testSecret (testNow + 1)
          NewResponseWriter ?r testWorld =
        Inr (Encode (GetCustomerResponseJSON (newGetCustomerResponse PeterCustomer))
               NewResponseWriter,
             testWorld\<lparr>storeCalls := storeCalls testWorld @ [CallGetCustomerById 0]\<rparr>)"
    by blast
  then show ?thesis by (simp only: e)
qed

end
